theory Spec2Isabelle
  imports Main
begin

section \<open>Plugin Registry (pkg/plugin/registry.go)\<close>

text \<open>
  A Go \<^verbatim>\<open>Plugin\<close> is an interface value; the registry only calls \<^verbatim>\<open>Name()\<close> and
  \<^verbatim>\<open>Metadata().Aliases\<close> on it. The interface declaration itself is not part of the
  sources at hand, so a plugin is the record of what those calls return, together with its
  version (which tells two plugins of the same name apart). A nil plugin is \<open>None\<close>.
  The mutex of the registry is not modelled: every operation runs under the lock from its
  first to its last statement.
\<close>

record PluginMetadata =
  Aliases :: "string list"

record Plugin =
  Plugin_Name :: string
  Plugin_Version :: string
  Plugin_Metadata :: PluginMetadata

record 'c Registry =
  plugins :: "string \<rightharpoonup> Plugin"
  aliases :: "string \<rightharpoonup> string"
  config :: "string \<rightharpoonup> 'c"

datatype RegistryError =
    CannotRegisterNilPlugin
  | PluginMustHaveName
  | PluginAlreadyRegistered string
  | PluginNameConflictsWithAlias string
  | PluginAliasConflictsWithPlugin string
  | PluginAliasAlreadyRegistered string

definition NewRegistry :: "'c Registry" where
  "NewRegistry = \<lparr>plugins = Map.empty, aliases = Map.empty, config = Map.empty\<rparr>"

text \<open>The first loop of \<^verbatim>\<open>Register\<close>: the first conflicting alias ends the call.\<close>

fun check_aliases :: "'c Registry \<Rightarrow> string list \<Rightarrow> RegistryError option" where
  "check_aliases r [] = None"
| "check_aliases r (alias # rest) =
     (if plugins r alias \<noteq> None then Some (PluginAliasConflictsWithPlugin alias)
      else if aliases r alias \<noteq> None then Some (PluginAliasAlreadyRegistered alias)
      else check_aliases r rest)"

text \<open>The second loop of \<^verbatim>\<open>Register\<close>: \<^verbatim>\<open>r.aliases[alias] = name\<close> for each alias in order.\<close>

fun register_aliases :: "(string \<rightharpoonup> string) \<Rightarrow> string \<Rightarrow> string list \<Rightarrow> (string \<rightharpoonup> string)" where
  "register_aliases m name [] = m"
| "register_aliases m name (alias # rest) = register_aliases (m(alias \<mapsto> name)) name rest"

text \<open>
  \<^verbatim>\<open>Register\<close> returns the error (\<open>None\<close> is Go's nil error) and the registry as the call
  leaves it.
\<close>

definition Registry_Register :: "'c Registry \<Rightarrow> Plugin option \<Rightarrow> RegistryError option \<times> 'c Registry" where
  "Registry_Register r p' =
     (case p' of
        None \<Rightarrow> (Some CannotRegisterNilPlugin, r)
      | Some p \<Rightarrow>
          (let name = Plugin_Name p in
           if name = [] then (Some PluginMustHaveName, r)
           else if plugins r name \<noteq> None then (Some (PluginAlreadyRegistered name), r)
           else if aliases r name \<noteq> None then (Some (PluginNameConflictsWithAlias name), r)
           else
             (let meta = Plugin_Metadata p in
              case check_aliases r (Aliases meta) of
                Some e \<Rightarrow> (Some e, r)
              | None \<Rightarrow>
                  (None, r\<lparr>plugins := (plugins r)(name \<mapsto> p),
                            aliases := register_aliases (aliases r) name (Aliases meta)\<rparr>))))"

text \<open>
  \<^verbatim>\<open>Get\<close> returns the pair \<^verbatim>\<open>(Plugin, bool)\<close>; in the alias branch the plugin is whatever
  \<^verbatim>\<open>r.plugins[canonicalName]\<close> holds (nil when the key is absent) and the flag is true.
\<close>

definition Registry_Get :: "'c Registry \<Rightarrow> string \<Rightarrow> Plugin option \<times> bool" where
  "Registry_Get r name =
     (case plugins r name of
        Some plugin \<Rightarrow> (Some plugin, True)
      | None \<Rightarrow>
          (case aliases r name of
             Some canonicalName \<Rightarrow> (plugins r canonicalName, True)
           | None \<Rightarrow> (None, False)))"

text \<open>
  A sequence of registrations, each of which has to succeed: \<open>None\<close> as soon as one
  \<^verbatim>\<open>Register\<close> call returns an error.
\<close>

fun register_each :: "'c Registry \<Rightarrow> Plugin list \<Rightarrow> 'c Registry option" where
  "register_each r [] = Some r"
| "register_each r (p # ps) =
     (case Registry_Register r (Some p) of
        (None, r') \<Rightarrow> register_each r' ps
      | (Some e, r') \<Rightarrow> None)"

text \<open>What a failing \<^verbatim>\<open>Register\<close> call looks like from outside, case by case.\<close>

definition register_conflict :: "'c Registry \<Rightarrow> Plugin option \<Rightarrow> bool" where
  "register_conflict r p' =
     (case p' of
        None \<Rightarrow> True
      | Some p \<Rightarrow>
          Plugin_Name p = [] \<or> plugins r (Plugin_Name p) \<noteq> None \<or> aliases r (Plugin_Name p) \<noteq> None
          \<or> list_ex (\<lambda>a. plugins r a \<noteq> None \<or> aliases r a \<noteq> None) (Aliases (Plugin_Metadata p)))"


section \<open>Executor Provider Registry (internal/shell/registry.go)\<close>

text \<open>
  The command, option and error types are declared in files that are not at hand; the
  registry never looks inside them, so they are type parameters. \<^verbatim>\<open>Execute\<close> returns the
  pair \<^verbatim>\<open>(*Result, error)\<close>; a nil pointer and a nil error are \<open>None\<close>.
\<close>

record 'e Result =
  ExitCode :: int
  Stdout :: string
  Stderr :: string
  Error :: "'e option"

type_synonym ('cmd, 'e) CommandExecutor = "'cmd \<Rightarrow> 'e Result option \<times> 'e option"

record ('cmd, 'opt, 'e) ExecutorProvider =
  Provider_Name :: string
  CanHandle :: "'cmd \<Rightarrow> bool"
  CreateExecutor :: "'opt \<Rightarrow> ('cmd, 'e) CommandExecutor"

record ('cmd, 'opt, 'e) ExecutorRegistry =
  providers :: "string \<rightharpoonup> ('cmd, 'opt, 'e) ExecutorProvider"

datatype ExecutorRegistryError =
    ProviderNameCannotBeEmpty
  | ProviderAlreadyRegistered string

definition NewExecutorRegistry :: "('cmd, 'opt, 'e) ExecutorRegistry" where
  "NewExecutorRegistry = \<lparr>providers = Map.empty\<rparr>"

definition ExecutorRegistry_Register ::
  "('cmd, 'opt, 'e) ExecutorRegistry \<Rightarrow> ('cmd, 'opt, 'e) ExecutorProvider option
     \<Rightarrow> ExecutorRegistryError option \<times> ('cmd, 'opt, 'e) ExecutorRegistry" where
  "ExecutorRegistry_Register r provider' =
     (case provider' of
        None \<Rightarrow> (None, r)
      | Some provider \<Rightarrow>
          (let name = Provider_Name provider in
           if name = [] then (Some ProviderNameCannotBeEmpty, r)
           else if providers r name \<noteq> None then (Some (ProviderAlreadyRegistered name), r)
           else (None, r\<lparr>providers := (providers r)(name \<mapsto> provider)\<rparr>)))"

definition ExecutorRegistry_Get ::
  "('cmd, 'opt, 'e) ExecutorRegistry \<Rightarrow> string \<Rightarrow> ('cmd, 'opt, 'e) ExecutorProvider option \<times> bool" where
  "ExecutorRegistry_Get r name = (providers r name, providers r name \<noteq> None)"

text \<open>
  Go visits the entries of a map in an order it does not specify, each entry once. The
  order of one \<^verbatim>\<open>range\<close> loop is a list of the keys of the map, without repetition.
\<close>

definition iteration_order :: "string list \<Rightarrow> (string \<rightharpoonup> 'a) \<Rightarrow> bool" where
  "iteration_order ks m \<longleftrightarrow> distinct ks \<and> set ks = dom m"

fun FindProvider_loop ::
  "(string \<rightharpoonup> ('cmd, 'opt, 'e) ExecutorProvider) \<Rightarrow> string list \<Rightarrow> 'cmd
     \<Rightarrow> ('cmd, 'opt, 'e) ExecutorProvider option" where
  "FindProvider_loop m [] cmd = None"
| "FindProvider_loop m (k # ks) cmd =
     (case m k of
        None \<Rightarrow> FindProvider_loop m ks cmd
      | Some provider \<Rightarrow>
          if CanHandle provider cmd then Some provider else FindProvider_loop m ks cmd)"

definition FindProvider ::
  "('cmd, 'opt, 'e) ExecutorRegistry \<Rightarrow> string list \<Rightarrow> 'cmd \<Rightarrow> ('cmd, 'opt, 'e) ExecutorProvider option" where
  "FindProvider r ks cmd = FindProvider_loop (providers r) ks cmd"


section \<open>Context Extension Registry (pkg/plugin/sdk/extensions.go)\<close>

text \<open>
  Extension data is a Go \<^verbatim>\<open>interface{}\<close>: \<open>None\<close> is the nil interface, \<open>Some v\<close> any other
  value. \<^verbatim>\<open>Detect\<close> and \<^verbatim>\<open>Merge\<close> return the pair \<^verbatim>\<open>(interface{}, error)\<close>. The
  \<^verbatim>\<open>context.Context\<close> argument of \<^verbatim>\<open>Detect\<close> is passed through untouched by the registry and
  is left out.
\<close>

datatype SdkError =
    ErrInvalidExtensionName
  | ErrInvalidExecutorName
  | ErrInvalidCommandName
  | ErrInvalidCompletionProvider

record ('v, 'e) ContextExtension =
  Extension_Name :: string
  Detect :: "string \<Rightarrow> 'v option \<times> 'e option"
  Merge :: "'v option \<Rightarrow> 'v option \<Rightarrow> 'v option \<times> 'e option"

record ('v, 'e) ExtensionRegistry =
  extensions :: "string \<rightharpoonup> ('v, 'e) ContextExtension"

definition NewExtensionRegistry :: "('v, 'e) ExtensionRegistry" where
  "NewExtensionRegistry = \<lparr>extensions = Map.empty\<rparr>"

definition ExtensionRegistry_Register ::
  "('v, 'e) ExtensionRegistry \<Rightarrow> ('v, 'e) ContextExtension option
     \<Rightarrow> SdkError option \<times> ('v, 'e) ExtensionRegistry" where
  "ExtensionRegistry_Register r ext' =
     (case ext' of
        None \<Rightarrow> (None, r)
      | Some ext \<Rightarrow>
          (let name = Extension_Name ext in
           if name = [] then (Some ErrInvalidExtensionName, r)
           else (None, r\<lparr>extensions := (extensions r)(name \<mapsto> ext)\<rparr>)))"


text \<open>
  \<^verbatim>\<open>DetectAll\<close> ranges over the map of extensions; \<open>ks\<close> is the order of that loop. The
  second component of the result is the error of \<^verbatim>\<open>DetectAll\<close> itself.
\<close>

fun DetectAll_loop ::
  "(string \<rightharpoonup> ('v, 'e) ContextExtension) \<Rightarrow> string \<Rightarrow> string list
     \<Rightarrow> (string \<rightharpoonup> 'v option) \<Rightarrow> (string \<rightharpoonup> 'v option)" where
  "DetectAll_loop m projectRoot [] results = results"
| "DetectAll_loop m projectRoot (name # ks) results =
     (case m name of
        None \<Rightarrow> DetectAll_loop m projectRoot ks results
      | Some ext \<Rightarrow>
          (case Detect ext projectRoot of
             (data, Some err) \<Rightarrow> DetectAll_loop m projectRoot ks results
           | (data, None) \<Rightarrow>
               if data \<noteq> None then DetectAll_loop m projectRoot ks (results(name \<mapsto> data))
               else DetectAll_loop m projectRoot ks results))"

definition DetectAll ::
  "('v, 'e) ExtensionRegistry \<Rightarrow> string list \<Rightarrow> string \<Rightarrow> (string \<rightharpoonup> 'v option) \<times> 'e option" where
  "DetectAll r ks projectRoot = (DetectAll_loop (extensions r) projectRoot ks Map.empty, None)"

text \<open>
  \<^verbatim>\<open>MergeExtensionData\<close> returns \<^verbatim>\<open>(map, error)\<close>: \<^verbatim>\<open>(nil, err)\<close> as soon as a \<^verbatim>\<open>Merge\<close>
  fails, \<^verbatim>\<open>(result, nil)\<close> otherwise. The loop is over the slice of extensions, in order,
  with the result built so far.
\<close>

fun MergeExtensionData_loop ::
  "('v, 'e) ContextExtension list \<Rightarrow> (string \<rightharpoonup> 'v option) \<Rightarrow> (string \<rightharpoonup> 'v option)
     \<Rightarrow> (string \<rightharpoonup> 'v option) option \<times> 'e option" where
  "MergeExtensionData_loop [] dataMap result = (Some result, None)"
| "MergeExtensionData_loop (ext # rest) dataMap result =
     (let name = Extension_Name ext in
      case result name of
        Some existing \<Rightarrow>
          (case dataMap name of
             Some newData \<Rightarrow>
               (case Merge ext existing newData of
                  (merged, Some err) \<Rightarrow> (None, Some err)
                | (merged, None) \<Rightarrow> MergeExtensionData_loop rest dataMap (result(name \<mapsto> merged)))
           | None \<Rightarrow> MergeExtensionData_loop rest dataMap result)
      | None \<Rightarrow>
          (case dataMap name of
             Some data \<Rightarrow> MergeExtensionData_loop rest dataMap (result(name \<mapsto> data))
           | None \<Rightarrow> MergeExtensionData_loop rest dataMap result))"

definition MergeExtensionData ::
  "('v, 'e) ContextExtension list \<Rightarrow> (string \<rightharpoonup> 'v option)
     \<Rightarrow> (string \<rightharpoonup> 'v option) option \<times> 'e option" where
  "MergeExtensionData extensions' dataMap = MergeExtensionData_loop extensions' dataMap Map.empty"


section \<open>Plugin-aware executor (internal/shell/plugin_aware.go)\<close>

text \<open>
  The standard executor, its options and the two command constructors live in files that
  are not at hand. The standard executor is the record of its options and of what its
  \<^verbatim>\<open>Execute\<close> method computes; the command constructors are parameters of \<^verbatim>\<open>Run\<close> and
  \<^verbatim>\<open>RunCapture\<close>. The registry pointer of the wrapper is taken to be non-nil, and \<open>ks\<close> is
  the order in which \<^verbatim>\<open>FindProvider\<close> ranges over the providers during the call.
\<close>

record ('cmd, 'opt, 'e) Executor =
  options :: 'opt
  Executor_Execute :: "('cmd, 'e) CommandExecutor"

record ('cmd, 'opt, 'e) PluginAwareExecutor =
  standardExecutor :: "('cmd, 'opt, 'e) Executor"
  registry :: "('cmd, 'opt, 'e) ExecutorRegistry"

definition PluginAwareExecutor_Execute ::
  "('cmd, 'opt, 'e) PluginAwareExecutor \<Rightarrow> string list \<Rightarrow> 'cmd \<Rightarrow> 'e Result option \<times> 'e option" where
  "PluginAwareExecutor_Execute e ks cmd =
     (case FindProvider (registry e) ks cmd of
        Some provider \<Rightarrow>
          (let executor = CreateExecutor provider (options (standardExecutor e)) in executor cmd)
      | None \<Rightarrow> Executor_Execute (standardExecutor e) cmd)"

text \<open>
  \<^verbatim>\<open>Run\<close> and \<^verbatim>\<open>RunCapture\<close> read fields of \<^verbatim>\<open>result\<close> once \<^verbatim>\<open>err\<close> is nil; on a nil result
  that read panics.
\<close>

datatype Panic = NilPointerDereference

definition Run ::
  "('cmd, 'opt, 'e) PluginAwareExecutor \<Rightarrow> string list \<Rightarrow> (string \<Rightarrow> string list \<Rightarrow> 'cmd)
     \<Rightarrow> string \<Rightarrow> string list \<Rightarrow> Panic + 'e option" where
  "Run e ks NewPassthroughCommand name args =
     (let cmd = NewPassthroughCommand name args in
      case PluginAwareExecutor_Execute e ks cmd of
        (result', Some err) \<Rightarrow> Inr (Some err)
      | (None, None) \<Rightarrow> Inl NilPointerDereference
      | (Some result, None) \<Rightarrow>
          if Error result \<noteq> None then Inr (Error result)
          else if ExitCode result \<noteq> 0 then Inr (Error result)
          else Inr None)"

definition RunCapture ::
  "('cmd, 'opt, 'e) PluginAwareExecutor \<Rightarrow> string list \<Rightarrow> (string \<Rightarrow> string list \<Rightarrow> 'cmd)
     \<Rightarrow> string \<Rightarrow> string list \<Rightarrow> Panic + string \<times> 'e option" where
  "RunCapture e ks NewCommand name args =
     (let cmd = NewCommand name args in
      case PluginAwareExecutor_Execute e ks cmd of
        (result', Some err) \<Rightarrow> Inr ([], Some err)
      | (None, None) \<Rightarrow> Inl NilPointerDereference
      | (Some result, None) \<Rightarrow>
          if Error result \<noteq> None then Inr ([], Error result)
          else if ExitCode result \<noteq> 0 then Inr (Stderr result, Error result)
          else Inr (Stdout result, None))"


section \<open>Compatibility bridge (internal/context/compatibility.go)\<close>

text \<open>
  The values of the extension map are Go \<^verbatim>\<open>interface{}\<close> values; the bridge tells them
  apart by type assertion only. The dynamic types it asserts are constructors of their
  own, every other dynamic type is \<open>VOther\<close>, and the nil interface is \<open>VNil\<close>. A slice is
  a list and a map a partial function, so that a nil slice or map and an empty one are
  the same value, as they are for \<^verbatim>\<open>len\<close>.

  \<^verbatim>\<open>ProjectContext\<close> and \<^verbatim>\<open>ContainerStatus\<close> are declared in a file that is not at hand. The
  record holds the fields the bridge touches; the remaining fields of the struct are the
  extension part of the record scheme, which no function below changes. A nil
  \<^verbatim>\<open>Extensions\<close> map is \<open>None\<close>.
\<close>

datatype 'cs Value =
    VNil
  | VStrings "string list"
  | VString string
  | VBool bool
  | VContainers "string \<rightharpoonup> 'cs"
  | VObject "string \<rightharpoonup> 'cs Value"
  | VOther nat

record 'cs ProjectContext =
  Extensions :: "(string \<rightharpoonup> 'cs Value) option"
  ComposeFiles :: "string list"
  ComposeOverride :: string
  DockerRunning :: bool
  ContainersStatus :: "string \<rightharpoonup> 'cs"

definition PopulateCompatibilityFields ::
  "('cs, 'z) ProjectContext_scheme \<Rightarrow> ('cs, 'z) ProjectContext_scheme" where
  "PopulateCompatibilityFields ctx =
     (case Extensions ctx of
        None \<Rightarrow> ctx
      | Some exts \<Rightarrow>
          (case exts ''docker'' of
             None \<Rightarrow> ctx
           | Some dockerData \<Rightarrow>
               (case dockerData of
                  VObject dockerCtx \<Rightarrow>
                    (let ctx1 = (case dockerCtx ''compose_files'' of
                                   Some (VStrings composeFiles) \<Rightarrow> ctx\<lparr>ComposeFiles := composeFiles\<rparr>
                                 | _ \<Rightarrow> ctx);
                         ctx2 = (case dockerCtx ''compose_override'' of
                                   Some (VString composeOverride) \<Rightarrow> ctx1\<lparr>ComposeOverride := composeOverride\<rparr>
                                 | _ \<Rightarrow> ctx1);
                         ctx3 = (case dockerCtx ''docker_running'' of
                                   Some (VBool dockerRunning) \<Rightarrow> ctx2\<lparr>DockerRunning := dockerRunning\<rparr>
                                 | _ \<Rightarrow> ctx2);
                         ctx4 = (case dockerCtx ''containers_status'' of
                                   Some (VContainers containersStatus) \<Rightarrow> ctx3\<lparr>ContainersStatus := containersStatus\<rparr>
                                 | _ \<Rightarrow> ctx3)
                     in ctx4)
                | _ \<Rightarrow> ctx)))"

definition hasDockerData :: "('cs, 'z) ProjectContext_scheme \<Rightarrow> bool" where
  "hasDockerData ctx \<longleftrightarrow>
     length (ComposeFiles ctx) > 0 \<or> ComposeOverride ctx \<noteq> [] \<or> DockerRunning ctx
     \<or> ContainersStatus ctx \<noteq> Map.empty"

definition UpdateExtensionsFromCompatibility ::
  "('cs, 'z) ProjectContext_scheme \<Rightarrow> ('cs, 'z) ProjectContext_scheme" where
  "UpdateExtensionsFromCompatibility ctx0 =
     (let ctx = (if Extensions ctx0 = None then ctx0\<lparr>Extensions := Some Map.empty\<rparr> else ctx0) in
      if \<not> hasDockerData ctx then ctx
      else
        (let dockerCtx0 = Map.empty;
             dockerCtx1 = (if length (ComposeFiles ctx) > 0
                           then dockerCtx0(''compose_files'' \<mapsto> VStrings (ComposeFiles ctx))
                           else dockerCtx0);
             dockerCtx2 = (if ComposeOverride ctx \<noteq> []
                           then dockerCtx1(''compose_override'' \<mapsto> VString (ComposeOverride ctx))
                           else dockerCtx1);
             dockerCtx3 = dockerCtx2(''docker_running'' \<mapsto> VBool (DockerRunning ctx));
             dockerCtx4 = (if ContainersStatus ctx \<noteq> Map.empty
                           then dockerCtx3(''containers_status'' \<mapsto> VContainers (ContainersStatus ctx))
                           else dockerCtx3)
         in case Extensions ctx of
              None \<Rightarrow> ctx\<lparr>Extensions := Some [''docker'' \<mapsto> VObject dockerCtx4]\<rparr>
            | Some exts \<Rightarrow> ctx\<lparr>Extensions := Some (exts(''docker'' \<mapsto> VObject dockerCtx4))\<rparr>))"


section \<open>Concrete registries and contexts\<close>

text \<open>
  The values of the scenarios below: the plugins \<open>docker\<close> (alias \<open>d\<close>) and \<open>git\<close>, a
  third plugin that wants the name \<open>d\<close>, and the registry that holds the first two.
\<close>

definition docker_plugin :: Plugin where
  "docker_plugin =
     \<lparr>Plugin_Name = ''docker'', Plugin_Version = ''1.0.0'', Plugin_Metadata = \<lparr>Aliases = [''d'']\<rparr>\<rparr>"

definition git_plugin :: Plugin where
  "git_plugin =
     \<lparr>Plugin_Name = ''git'', Plugin_Version = ''2.1.0'', Plugin_Metadata = \<lparr>Aliases = []\<rparr>\<rparr>"

definition d_plugin :: Plugin where
  "d_plugin =
     \<lparr>Plugin_Name = ''d'', Plugin_Version = ''0.1.0'', Plugin_Metadata = \<lparr>Aliases = [''dd'']\<rparr>\<rparr>"

definition docker_git_registry :: "unit Registry" where
  "docker_git_registry =
     \<lparr>plugins = [''docker'' \<mapsto> docker_plugin, ''git'' \<mapsto> git_plugin],
      aliases = [''d'' \<mapsto> ''docker''],
      config = Map.empty\<rparr>"

text \<open>
  An executor provider that claims the program \<open>docker\<close>; its executor reports exit code
  1 in the result, with no error in the result and none beside it. Commands are program
  names here, options are trivial and errors are messages.
\<close>

definition exit1_executor :: "(string, string) CommandExecutor" where
  "exit1_executor cmd =
     (Some \<lparr>ExitCode = 1, Stdout = [], Stderr = ''no such service'', Error = None\<rparr>, None)"

definition docker_provider :: "(string, unit, string) ExecutorProvider" where
  "docker_provider =
     \<lparr>Provider_Name = ''docker'', CanHandle = (\<lambda>cmd. cmd = ''docker''),
      CreateExecutor = (\<lambda>opts. exit1_executor)\<rparr>"

definition unnamed_provider :: "(string, unit, string) ExecutorProvider" where
  "unnamed_provider =
     \<lparr>Provider_Name = [], CanHandle = (\<lambda>cmd. True), CreateExecutor = (\<lambda>opts. exit1_executor)\<rparr>"

definition other_docker_provider :: "(string, unit, string) ExecutorProvider" where
  "other_docker_provider =
     \<lparr>Provider_Name = ''docker'', CanHandle = (\<lambda>cmd. True), CreateExecutor = (\<lambda>opts. exit1_executor)\<rparr>"

definition docker_executor_registry :: "(string, unit, string) ExecutorRegistry" where
  "docker_executor_registry = \<lparr>providers = [''docker'' \<mapsto> docker_provider]\<rparr>"

text \<open>
  Two extensions: \<open>docker\<close> finds a compose file under \<open>/project\<close> and nothing elsewhere;
  \<open>broken\<close> fails on every root. Extension data are lists of file names here.
\<close>

definition docker_extension :: "(string list, string) ContextExtension" where
  "docker_extension =
     \<lparr>Extension_Name = ''docker'',
      Detect = (\<lambda>root. if root = ''/project'' then (Some [''docker-compose.yml''], None) else (None, None)),
      Merge = (\<lambda>existing new. (case new of None \<Rightarrow> existing | Some v \<Rightarrow> Some v, None))\<rparr>"

definition broken_extension :: "(string list, string) ContextExtension" where
  "broken_extension =
     \<lparr>Extension_Name = ''broken'',
      Detect = (\<lambda>root. (None, Some ''permission denied'')),
      Merge = (\<lambda>existing new. (None, Some ''cannot merge''))\<rparr>"

definition two_extension_registry :: "(string list, string) ExtensionRegistry" where
  "two_extension_registry =
     \<lparr>extensions = [''docker'' \<mapsto> docker_extension, ''broken'' \<mapsto> broken_extension]\<rparr>"


section \<open>Plugin Registry: failed registrations\<close>

lemma check_aliases_Some_iff:
  "check_aliases r as \<noteq> None \<longleftrightarrow> list_ex (\<lambda>a. plugins r a \<noteq> None \<or> aliases r a \<noteq> None) as"
  by (induction as) auto

text \<open>
  C1. Registration in the Plugin Registry is all-or-nothing. A \<^verbatim>\<open>Register\<close> call fails
  exactly when the plugin is nil, its name is empty, its name is already a plugin name or
  an alias, or one of its aliases is already a plugin name or an alias; and whenever the
  call fails, the registry after the call (plugin map and alias map included) is the
  registry before the call.
\<close>

theorem Registry_Register_failure_atomic:
  "(fst (Registry_Register r p') \<noteq> None \<longleftrightarrow> register_conflict r p')
   \<and> (fst (Registry_Register r p') \<noteq> None \<longrightarrow>
        snd (Registry_Register r p') = r
        \<and> plugins (snd (Registry_Register r p')) = plugins r
        \<and> aliases (snd (Registry_Register r p')) = aliases r)"
proof (cases p')
  case None
  then show ?thesis by (simp add: Registry_Register_def register_conflict_def)
next
  case (Some p)
  show ?thesis
  proof (cases "check_aliases r (Aliases (Plugin_Metadata p))")
    case None
    with Some show ?thesis
      using check_aliases_Some_iff [of r "Aliases (Plugin_Metadata p)"]
      by (simp add: Registry_Register_def register_conflict_def Let_def)
  next
    case (Some e)
    with \<open>p' = Some p\<close> show ?thesis
      using check_aliases_Some_iff [of r "Aliases (Plugin_Metadata p)"]
      by (simp add: Registry_Register_def register_conflict_def Let_def)
  qed
qed

theorem Registry_Register_failure_atomic_witness:
  "fst (Registry_Register docker_git_registry (Some d_plugin)) = Some (PluginNameConflictsWithAlias ''d'')
   \<and> snd (Registry_Register docker_git_registry (Some d_plugin)) = docker_git_registry"
proof -
  have h: "fst (Registry_Register docker_git_registry (Some d_plugin))
           = Some (PluginNameConflictsWithAlias ''d'')"
    by (simp add: Registry_Register_def docker_git_registry_def d_plugin_def Let_def)
  with Registry_Register_failure_atomic [of docker_git_registry "Some d_plugin"]
  show ?thesis by simp
qed


section \<open>Executor Provider Registry: exclusive names\<close>

text \<open>
  C9. \<^verbatim>\<open>ExecutorRegistry.Register\<close> enforces exclusive provider identity: a provider with
  the empty name is refused with an error, and a provider whose name is taken is refused
  with an error while the provider registered earlier stays in place; in both cases the
  registry is unchanged.
\<close>

theorem ExecutorRegistry_Register_exclusive:
  "(Provider_Name p = [] \<longrightarrow>
      fst (ExecutorRegistry_Register r (Some p)) = Some ProviderNameCannotBeEmpty
      \<and> snd (ExecutorRegistry_Register r (Some p)) = r)
   \<and> (Provider_Name p \<noteq> [] \<and> providers r (Provider_Name p) = Some q \<longrightarrow>
        fst (ExecutorRegistry_Register r (Some p)) = Some (ProviderAlreadyRegistered (Provider_Name p))
        \<and> snd (ExecutorRegistry_Register r (Some p)) = r
        \<and> ExecutorRegistry_Get (snd (ExecutorRegistry_Register r (Some p))) (Provider_Name p)
            = (Some q, True))"
  by (simp add: ExecutorRegistry_Register_def ExecutorRegistry_Get_def Let_def)

theorem ExecutorRegistry_Register_exclusive_witness:
  "fst (ExecutorRegistry_Register docker_executor_registry (Some other_docker_provider))
     = Some (ProviderAlreadyRegistered ''docker'')
   \<and> snd (ExecutorRegistry_Register docker_executor_registry (Some other_docker_provider))
     = docker_executor_registry
   \<and> ExecutorRegistry_Get
        (snd (ExecutorRegistry_Register docker_executor_registry (Some other_docker_provider))) ''docker''
     = (Some docker_provider, True)
   \<and> fst (ExecutorRegistry_Register docker_executor_registry (Some unnamed_provider))
     = Some ProviderNameCannotBeEmpty
   \<and> snd (ExecutorRegistry_Register docker_executor_registry (Some unnamed_provider))
     = docker_executor_registry"
proof -
  have taken: "Provider_Name other_docker_provider \<noteq> []
               \<and> providers docker_executor_registry (Provider_Name other_docker_provider)
                 = Some docker_provider"
    by (simp add: other_docker_provider_def docker_executor_registry_def)
  have name: "Provider_Name other_docker_provider = ''docker''"
    by (simp add: other_docker_provider_def)
  have empty: "Provider_Name unnamed_provider = []"
    by (simp add: unnamed_provider_def)
  from taken empty name
    ExecutorRegistry_Register_exclusive
      [of other_docker_provider docker_executor_registry docker_provider]
    ExecutorRegistry_Register_exclusive [of unnamed_provider docker_executor_registry]
  show ?thesis by (simp add: ExecutorRegistry_Get_def docker_executor_registry_def)
qed


section \<open>Registering nil\<close>

text \<open>
  C10. Registering nil is a silent no-op on the Extension Registry and on the Executor
  Provider Registry: the call returns no error and the registry is unchanged. The Plugin
  Registry rejects nil with an error (and is unchanged as well).
\<close>

theorem Register_nil:
  "ExtensionRegistry_Register er None = (None, er)
   \<and> ExecutorRegistry_Register xr None = (None, xr)
   \<and> Registry_Register pr None = (Some CannotRegisterNilPlugin, pr)"
  by (simp add: ExtensionRegistry_Register_def ExecutorRegistry_Register_def Registry_Register_def)

theorem Register_nil_witness:
  "ExtensionRegistry_Register two_extension_registry None = (None, two_extension_registry)
   \<and> ExecutorRegistry_Register docker_executor_registry None = (None, docker_executor_registry)
   \<and> Registry_Register docker_git_registry None = (Some CannotRegisterNilPlugin, docker_git_registry)"
  using Register_nil [of two_extension_registry docker_executor_registry docker_git_registry]
  by simp


section \<open>Executor Provider Registry: routing\<close>

lemma FindProvider_loop_None_iff:
  "FindProvider_loop m ks cmd = None
     \<longleftrightarrow> (\<forall>k\<in>set ks. \<forall>p. m k = Some p \<longrightarrow> \<not> CanHandle p cmd)"
  by (induction ks) (auto split: option.splits)

lemma FindProvider_loop_Some:
  "FindProvider_loop m ks cmd = Some p \<Longrightarrow> \<exists>k\<in>set ks. m k = Some p \<and> CanHandle p cmd"
  by (induction ks) (auto split: option.splits if_splits)

text \<open>
  C8. Whatever the order in which the loop visits the providers: \<^verbatim>\<open>FindProvider\<close> returns
  nil exactly when no registered provider can handle the command, and a provider it
  returns is registered and can handle the command.
\<close>

theorem FindProvider_sound_complete:
  assumes "iteration_order ks (providers r)"
  shows "(FindProvider r ks cmd = None \<longleftrightarrow> (\<forall>p\<in>ran (providers r). \<not> CanHandle p cmd))
         \<and> (\<forall>p. FindProvider r ks cmd = Some p \<longrightarrow> p \<in> ran (providers r) \<and> CanHandle p cmd)"
proof (intro conjI allI impI)
  from assms have ks: "set ks = dom (providers r)"
    by (simp add: iteration_order_def)
  show "FindProvider r ks cmd = None \<longleftrightarrow> (\<forall>p\<in>ran (providers r). \<not> CanHandle p cmd)"
    unfolding FindProvider_def FindProvider_loop_None_iff ks
    by (auto simp: ran_def dom_def)
next
  fix p assume "FindProvider r ks cmd = Some p"
  then obtain k where "providers r k = Some p" "CanHandle p cmd"
    unfolding FindProvider_def by (blast dest: FindProvider_loop_Some)
  then show "p \<in> ran (providers r)" and "CanHandle p cmd"
    by (auto simp: ran_def)
qed

theorem FindProvider_sound_complete_witness:
  "iteration_order [''docker''] (providers docker_executor_registry)
   \<and> FindProvider docker_executor_registry [''docker''] ''docker'' = Some docker_provider
   \<and> docker_provider \<in> ran (providers docker_executor_registry)
   \<and> FindProvider docker_executor_registry [''docker''] ''npm'' = None"
proof -
  have order: "iteration_order [''docker''] (providers docker_executor_registry)"
    by (simp add: iteration_order_def docker_executor_registry_def)
  have found: "FindProvider docker_executor_registry [''docker''] ''docker'' = Some docker_provider"
    by (simp add: FindProvider_def docker_executor_registry_def docker_provider_def)
  have none: "\<forall>p\<in>ran (providers docker_executor_registry). \<not> CanHandle p ''npm''"
    by (simp add: docker_executor_registry_def docker_provider_def)
  from FindProvider_sound_complete [OF order, of "''docker''"] found
  have "docker_provider \<in> ran (providers docker_executor_registry)" by blast
  moreover from FindProvider_sound_complete [OF order, of "''npm''"] none
  have "FindProvider docker_executor_registry [''docker''] ''npm'' = None" by blast
  ultimately show ?thesis using order found by blast
qed


section \<open>Context Extension Registry: detection\<close>

lemma DetectAll_loop_lookup:
  "DetectAll_loop m projectRoot ks results name =
     (if name \<in> set ks
      then (case m name of
              None \<Rightarrow> results name
            | Some ext \<Rightarrow>
                (case Detect ext projectRoot of
                   (data, Some err) \<Rightarrow> results name
                 | (None, None) \<Rightarrow> results name
                 | (Some v, None) \<Rightarrow> Some (Some v)))
      else results name)"
  by (induction ks arbitrary: results) (auto split: option.splits prod.splits)

text \<open>
  C6. \<^verbatim>\<open>DetectAll\<close> is best-effort and isolating, whatever the order of its loop: it never
  returns an error; an extension whose \<^verbatim>\<open>Detect\<close> fails has no key in the result, and
  neither has one whose \<^verbatim>\<open>Detect\<close> returns nil data; every other registered extension has
  its detected data under its name, whatever the other extensions did; and no other name
  is a key.
\<close>

theorem DetectAll_best_effort:
  assumes "iteration_order ks (extensions r)"
  shows "snd (DetectAll r ks projectRoot) = None
         \<and> (\<forall>name ext data err. extensions r name = Some ext
               \<and> Detect ext projectRoot = (data, Some err)
               \<longrightarrow> fst (DetectAll r ks projectRoot) name = None)
         \<and> (\<forall>name ext. extensions r name = Some ext \<and> Detect ext projectRoot = (None, None)
               \<longrightarrow> fst (DetectAll r ks projectRoot) name = None)
         \<and> (\<forall>name ext v. extensions r name = Some ext \<and> Detect ext projectRoot = (Some v, None)
               \<longrightarrow> fst (DetectAll r ks projectRoot) name = Some (Some v))
         \<and> (\<forall>name. extensions r name = None \<longrightarrow> fst (DetectAll r ks projectRoot) name = None)"
proof -
  from assms have ks: "set ks = dom (extensions r)"
    by (simp add: iteration_order_def)
  show ?thesis
    by (auto simp: DetectAll_def DetectAll_loop_lookup ks dom_def split: option.splits)
qed

theorem DetectAll_best_effort_witness:
  "iteration_order [''broken'', ''docker''] (extensions two_extension_registry)
   \<and> snd (DetectAll two_extension_registry [''broken'', ''docker''] ''/project'') = None
   \<and> fst (DetectAll two_extension_registry [''broken'', ''docker''] ''/project'') ''broken'' = None
   \<and> fst (DetectAll two_extension_registry [''broken'', ''docker''] ''/project'') ''docker''
       = Some (Some [''docker-compose.yml''])
   \<and> fst (DetectAll two_extension_registry [''broken'', ''docker''] ''/empty'') ''docker'' = None"
proof -
  have order: "iteration_order [''broken'', ''docker''] (extensions two_extension_registry)"
    by (auto simp: iteration_order_def two_extension_registry_def)
  have broken: "extensions two_extension_registry ''broken'' = Some broken_extension
                \<and> Detect broken_extension ''/project'' = (None, Some ''permission denied'')"
    by (simp add: two_extension_registry_def broken_extension_def)
  have docker: "extensions two_extension_registry ''docker'' = Some docker_extension
                \<and> Detect docker_extension ''/project'' = (Some [''docker-compose.yml''], None)"
    by (simp add: two_extension_registry_def docker_extension_def)
  have empty: "extensions two_extension_registry ''docker'' = Some docker_extension
               \<and> Detect docker_extension ''/empty'' = (None, None)"
    by (simp add: two_extension_registry_def docker_extension_def)
  from DetectAll_best_effort [OF order, of "''/project''"] broken docker
  have "snd (DetectAll two_extension_registry [''broken'', ''docker''] ''/project'') = None"
    and "fst (DetectAll two_extension_registry [''broken'', ''docker''] ''/project'') ''broken'' = None"
    and "fst (DetectAll two_extension_registry [''broken'', ''docker''] ''/project'') ''docker''
           = Some (Some [''docker-compose.yml''])"
    by blast+
  moreover from DetectAll_best_effort [OF order, of "''/empty''"] empty
  have "fst (DetectAll two_extension_registry [''broken'', ''docker''] ''/empty'') ''docker'' = None"
    by blast
  ultimately show ?thesis using order by blast
qed

end
